theory Spec2Isabelle
  imports Main
begin

section \<open>MedView chat: conversation state and API adapter\<close>

text \<open>
  A shallow embedding of \<^verbatim>\<open>streamlit_app.py\<close> (class \<^verbatim>\<open>MedViewChat\<close>).
  The session dictionary \<^verbatim>\<open>st.session_state\<close> is a record that is passed
  explicitly; the remote endpoint is a parameter that answers each POST with an
  outcome; every exception of the source is a value of a sum type.
\<close>

subsection \<open>Python values and exceptions\<close>

text \<open>
  The values \<^verbatim>\<open>response.json()\<close> can decode to. A dict is the list of its
  items in insertion order (its keys are distinct in Python); a float is kept as the
  text of its JSON number, which the program never inspects.
\<close>

datatype pyval =
    PNone
  | PBool bool
  | PInt int
  | PFloat string
  | PStr string
  | PList "pyval list"
  | PDict "(string \<times> pyval) list"

text \<open>
  The exceptions of the request/response handling, all instances of Python's
  \<^verbatim>\<open>Exception\<close>. \<open>RequestException n\<close> is an instance of
  \<^verbatim>\<open>requests.exceptions.RequestException\<close> of class \<open>n\<close> (ConnectionError,
  Timeout, HTTPError, the library's JSONDecodeError, ...); \<open>OtherException n\<close> is any
  other exception class (ValueError, ...). Exceptions that are not instances of
  \<^verbatim>\<open>Exception\<close> (KeyboardInterrupt, SystemExit) end the script and are not
  outcomes of a request; they are outside this model.
\<close>

datatype exn =
    RequestException string
  | AttributeError
  | TypeError
  | OtherException string

fun isinstance_RequestException :: "exn \<Rightarrow> bool" where
  "isinstance_RequestException (RequestException _) = True"
| "isinstance_RequestException _ = False"

subsection \<open>Conversation state\<close>

record message =
  role :: string
  content :: pyval

text \<open>
  What the program does to the session and to the network, in order: an
  \<^verbatim>\<open>append\<close> to the message log, and a POST with its URL and JSON body.
  Pure display calls (\<^verbatim>\<open>st.title\<close>, \<^verbatim>\<open>st.chat_message(..).write\<close>,
  \<^verbatim>\<open>st.spinner\<close>, \<^verbatim>\<open>st.error\<close>, ...) change neither and are left out.
\<close>

datatype event =
    Appended message
  | Posted string pyval

text \<open>
  \<^verbatim>\<open>st.session_state\<close>: a key that is absent is \<open>None\<close>. The field
  \<open>trace\<close> is the history of events, oldest first.
\<close>

record world =
  messages :: "message list option"
  category :: "string option"
  trace :: "event list"

definition fresh :: world where
  "fresh = \<lparr>messages = None, category = None, trace = []\<rparr>"

definition greeting :: message where
  "greeting = \<lparr>role = ''assistant'',
     content = PStr ''Hello! I'm your MedView assistant. How can I help you with your medical device today?''\<rparr>"

definition initialize_session_state :: "world \<Rightarrow> world" where
  "initialize_session_state w =
     (let w1 = (if messages w = None then w\<lparr>messages := Some [greeting]\<rparr> else w)
      in if category w1 = None then w1\<lparr>category := Some ''General''\<rparr> else w1)"

definition get_category_descriptions :: "(string \<times> string) list" where
  "get_category_descriptions =
     [(''Setup & Sensor Placement'',
         ''Questions about device setup, sensor placement, and installation.''),
      (''Calibration & Device Connection'',
         ''Questions about calibration and pairing your device.''),
      (''Understanding Readings & Alerts'',
         ''Questions on interpreting device readings and alerts.''),
      (''Daily Usage & Data Management'',
         ''Questions regarding daily use, data review, and sharing device info.''),
      (''Maintenance & Sensor Replacement'',
         ''Questions about cleaning, maintaining, and replacing sensors.''),
      (''Troubleshooting & Common Issues'',
         ''Questions related to error messages and device troubleshooting.''),
      (''Travel & Storage'',
         ''Questions about storing supplies or traveling with your device.'')]"

text \<open>
  \<^verbatim>\<open>st.session_state.messages.append({"role": r, "content": c})\<close>: reading
  an absent key raises AttributeError and leaves the session as it was.
\<close>

definition append_message :: "string \<Rightarrow> pyval \<Rightarrow> world \<Rightarrow> (exn + unit) \<times> world" where
  "append_message r c w =
     (case messages w of
        None \<Rightarrow> (Inl AttributeError, w)
      | Some ms \<Rightarrow>
          (Inr (), w\<lparr>messages := Some (ms @ [\<lparr>role = r, content = c\<rparr>]),
                      trace := trace w @ [Appended \<lparr>role = r, content = c\<rparr>]\<rparr>))"

subsection \<open>Python operations used by the adapter\<close>

fun starts_with :: "string \<Rightarrow> string \<Rightarrow> bool" where
  "starts_with [] s = True"
| "starts_with (c # cs) [] = False"
| "starts_with (c # cs) (d # ds) = (c = d \<and> starts_with cs ds)"

fun substr_in :: "string \<Rightarrow> string \<Rightarrow> bool" where
  "substr_in k [] = (k = [])"
| "substr_in k (d # ds) = (starts_with k (d # ds) \<or> substr_in k ds)"

text \<open>
  \<^verbatim>\<open>k in v\<close> for a string \<open>k\<close>: key membership in a dict, substring test in
  a str, element membership in a list, TypeError on None, a bool or a number.
\<close>

fun py_in :: "string \<Rightarrow> pyval \<Rightarrow> exn + bool" where
  "py_in k (PDict kvs) = Inr (k \<in> set (map fst kvs))"
| "py_in k (PStr s) = Inr (substr_in k s)"
| "py_in k (PList vs) = Inr (PStr k \<in> set vs)"
| "py_in k PNone = Inl TypeError"
| "py_in k (PBool b) = Inl TypeError"
| "py_in k (PInt n) = Inl TypeError"
| "py_in k (PFloat x) = Inl TypeError"

text \<open>
  \<^verbatim>\<open>v.get(k, d)\<close>: the value under \<open>k\<close> of a dict, \<open>d\<close> when the key is
  absent; only a dict has the method, every other value raises AttributeError.
\<close>

fun py_get :: "pyval \<Rightarrow> string \<Rightarrow> pyval \<Rightarrow> exn + pyval" where
  "py_get (PDict kvs) k d = Inr (case map_of kvs k of Some v \<Rightarrow> v | None \<Rightarrow> d)"
| "py_get PNone k d = Inl AttributeError"
| "py_get (PBool b) k d = Inl AttributeError"
| "py_get (PInt n) k d = Inl AttributeError"
| "py_get (PFloat x) k d = Inl AttributeError"
| "py_get (PStr s) k d = Inl AttributeError"
| "py_get (PList vs) k d = Inl AttributeError"

subsection \<open>The remote endpoint\<close>

text \<open>
  A response object of the HTTP library, as far as the program uses it: its status
  code and the outcome of \<^verbatim>\<open>json()\<close>. The endpoint maps the URL and JSON
  body of a POST to the outcome of \<^verbatim>\<open>requests.post\<close>: an exception, or a
  response.
\<close>

record response =
  status_code :: nat
  json :: "exn + pyval"

text \<open>
  \<^verbatim>\<open>response.raise_for_status()\<close>, as the requests library defines it: it
  raises HTTPError, a RequestException, for a client error (400 to 499) or a server
  error (500 to 599) and returns for every other status code. \<open>None\<close>: it returns;
  \<open>Some e\<close>: it raises \<open>e\<close>.
\<close>

definition raise_for_status :: "response \<Rightarrow> exn option" where
  "raise_for_status resp =
     (if 400 \<le> status_code resp \<and> status_code resp < 500 then Some (RequestException ''HTTPError'')
      else if 500 \<le> status_code resp \<and> status_code resp < 600 then Some (RequestException ''HTTPError'')
      else None)"

type_synonym endpoint = "string \<Rightarrow> pyval \<Rightarrow> exn + response"

definition endpoint_raising :: "exn \<Rightarrow> endpoint" where
  "endpoint_raising e url body = Inl e"

definition endpoint_replying :: "nat \<Rightarrow> exn + pyval \<Rightarrow> endpoint" where
  "endpoint_replying status decoded url body =
     Inr \<lparr>status_code = status, json = decoded\<rparr>"

definition API_URL :: string where
  "API_URL = ''https://flowise-arvh.onrender.com/api/v1/prediction/d795c5af-396a-46f2-a707-446e36667f1d''"

definition requests_post :: "endpoint \<Rightarrow> string \<Rightarrow> pyval \<Rightarrow> world \<Rightarrow> (exn + response) \<times> world" where
  "requests_post http url body w = (http url body, w\<lparr>trace := trace w @ [Posted url body]\<rparr>)"

subsection \<open>The API adapter\<close>

text \<open>The \<^verbatim>\<open>try\<close> block of \<^verbatim>\<open>query\<close>.\<close>

definition query_try :: "endpoint \<Rightarrow> pyval \<Rightarrow> world \<Rightarrow> (exn + pyval) \<times> world" where
  "query_try http payload w =
     (case requests_post http API_URL payload w of
        (Inl e, w1) \<Rightarrow> (Inl e, w1)
      | (Inr resp, w1) \<Rightarrow>
          (case raise_for_status resp of
             Some e \<Rightarrow> (Inl e, w1)
           | None \<Rightarrow> (json resp, w1)))"

text \<open>
  \<^verbatim>\<open>query\<close>: a RequestException of the block becomes the error dict; any other
  exception propagates.
\<close>

definition query :: "endpoint \<Rightarrow> pyval \<Rightarrow> world \<Rightarrow> (exn + pyval) \<times> world" where
  "query http payload w =
     (case query_try http payload w of
        (Inr v, w1) \<Rightarrow> (Inr v, w1)
      | (Inl e, w1) \<Rightarrow>
          (if isinstance_RequestException e
           then (Inr (PDict [(''error'', PStr ''Failed to get response from API'')]), w1)
           else (Inl e, w1)))"

definition apology_connecting :: string where
  "apology_connecting = ''I apologize, but I'm having trouble connecting. Please try again.''"

definition apology_error :: string where
  "apology_error = ''I apologize, but I encountered an error. Please try again in a moment.''"

definition request_payload :: "string \<Rightarrow> string \<Rightarrow> pyval" where
  "request_payload question cat = PDict [(''question'', PStr question), (''category'', PStr cat)]"

text \<open>The \<^verbatim>\<open>try\<close> block of \<^verbatim>\<open>get_bot_response\<close>.\<close>

definition get_bot_response_try :: "endpoint \<Rightarrow> string \<Rightarrow> string \<Rightarrow> world \<Rightarrow> (exn + pyval) \<times> world" where
  "get_bot_response_try http question cat w =
     (case query http (request_payload question cat) w of
        (Inl e, w1) \<Rightarrow> (Inl e, w1)
      | (Inr resp, w1) \<Rightarrow>
          (case py_in ''error'' resp of
             Inl e \<Rightarrow> (Inl e, w1)
           | Inr True \<Rightarrow> (Inr (PStr apology_connecting), w1)
           | Inr False \<Rightarrow> (py_get resp ''text'' resp, w1)))"

text \<open>
  \<^verbatim>\<open>get_bot_response\<close>: \<^verbatim>\<open>except Exception\<close> catches every member of
  \<open>exn\<close>, so the function returns a value on every path. The value is whatever the
  block returned, which need not be a string.
\<close>

definition get_bot_response :: "endpoint \<Rightarrow> string \<Rightarrow> string \<Rightarrow> world \<Rightarrow> pyval \<times> world" where
  "get_bot_response http question cat w =
     (case get_bot_response_try http question cat w of
        (Inr v, w1) \<Rightarrow> (v, w1)
      | (Inl e, w1) \<Rightarrow> (PStr apology_error, w1))"

subsection \<open>The page\<close>

text \<open>
  \<^verbatim>\<open>render_sidebar\<close> returns what \<^verbatim>\<open>st.radio\<close> returns: the option the user
  has selected among the catalog's keys, given here by its index (Streamlit selects
  the first option until the user picks another, and never returns anything but one
  of the options).
\<close>

definition render_sidebar :: "nat \<Rightarrow> string" where
  "render_sidebar pick = map fst get_category_descriptions ! pick"

text \<open>
  \<^verbatim>\<open>render_chat_interface\<close>: \<open>chat_input\<close> is what \<^verbatim>\<open>st.chat_input\<close>
  returns, \<open>None\<close> when nothing was submitted; the empty string is falsy as well.
\<close>

definition render_chat_interface :: "endpoint \<Rightarrow> string option \<Rightarrow> world \<Rightarrow> (exn + unit) \<times> world" where
  "render_chat_interface http chat_input w =
     (case messages w of
        None \<Rightarrow> (Inl AttributeError, w)
      | Some shown \<Rightarrow>
          (case chat_input of
             None \<Rightarrow> (Inr (), w)
           | Some prompt \<Rightarrow>
               (if prompt = [] then (Inr (), w)
                else
                  (case append_message ''user'' (PStr prompt) w of
                     (Inl e, w1) \<Rightarrow> (Inl e, w1)
                   | (Inr u, w1) \<Rightarrow>
                       (case category w1 of
                          None \<Rightarrow> (Inl AttributeError, w1)
                        | Some cat \<Rightarrow>
                            (case get_bot_response http prompt cat w1 of
                               (reply, w2) \<Rightarrow> append_message ''assistant'' reply w2))))))"

definition run :: "endpoint \<Rightarrow> nat \<Rightarrow> string option \<Rightarrow> world \<Rightarrow> (exn + unit) \<times> world" where
  "run http pick chat_input w =
     (let cat = render_sidebar pick
      in render_chat_interface http chat_input (w\<lparr>category := Some cat\<rparr>))"

text \<open>
  One execution of the script: \<^verbatim>\<open>app = MedViewChat()\<close>, whose constructor
  initializes the session, then \<^verbatim>\<open>app.run()\<close>. Streamlit executes the script
  once per user interaction, on the same session.
\<close>

definition script :: "endpoint \<Rightarrow> nat \<Rightarrow> string option \<Rightarrow> world \<Rightarrow> (exn + unit) \<times> world" where
  "script http pick chat_input w = run http pick chat_input (initialize_session_state w)"

type_synonym interaction = "endpoint \<times> nat \<times> string option"

fun session :: "interaction list \<Rightarrow> world \<Rightarrow> world" where
  "session [] w = w"
| "session ((http, pick, chat_input) # rest) w = session rest (snd (script http pick chat_input w))"

subsection \<open>Initialization\<close>

text \<open>
  Claim C7. Initializing the conversation state when no prior state exists yields a
  message log of exactly one message, whose role is assistant, and the selected
  category "General".
\<close>

theorem initialize_fresh:
  "messages (initialize_session_state fresh) = Some [greeting]
   \<and> length [greeting] = 1
   \<and> role greeting = ''assistant''
   \<and> category (initialize_session_state fresh) = Some ''General''"
  by (simp add: initialize_session_state_def fresh_def greeting_def)

text \<open>
  Claim C8. Initialization is idempotent: in a state where the message log and the
  category both exist, initializing again changes nothing; and initializing twice is
  the same as initializing once, from any state.
\<close>

theorem initialize_idempotent:
  "(messages w \<noteq> None \<and> category w \<noteq> None \<longrightarrow> initialize_session_state w = w)
   \<and> initialize_session_state (initialize_session_state w) = initialize_session_state w"
  by (simp add: initialize_session_state_def Let_def)

theorem initialize_idempotent_witness:
  "messages (initialize_session_state fresh) \<noteq> None
   \<and> category (initialize_session_state fresh) \<noteq> None
   \<and> initialize_session_state (initialize_session_state fresh) = initialize_session_state fresh
   \<and> messages (initialize_session_state (initialize_session_state fresh)) = Some [greeting]
   \<and> category (initialize_session_state (initialize_session_state fresh)) = Some ''General''"
  using initialize_idempotent [of "initialize_session_state fresh"]
  by (simp add: initialize_session_state_def fresh_def)

subsection \<open>What each adapter function returns and what it leaves behind\<close>

lemma snd_query_try:
  "snd (query_try http payload w) = w\<lparr>trace := trace w @ [Posted API_URL payload]\<rparr>"
  by (auto simp: query_try_def requests_post_def split: sum.splits option.splits)

lemma snd_query:
  "snd (query http payload w) = w\<lparr>trace := trace w @ [Posted API_URL payload]\<rparr>"
  using snd_query_try [of http payload w]
  by (auto simp: query_def split: prod.splits sum.splits)

lemma snd_get_bot_response_try:
  "snd (get_bot_response_try http q c w) = w\<lparr>trace := trace w @ [Posted API_URL (request_payload q c)]\<rparr>"
  using snd_query [of http "request_payload q c" w]
  by (auto simp: get_bot_response_try_def split: prod.splits sum.splits bool.splits)

lemma snd_get_bot_response:
  "snd (get_bot_response http q c w) = w\<lparr>trace := trace w @ [Posted API_URL (request_payload q c)]\<rparr>"
  using snd_get_bot_response_try [of http q c w]
  by (auto simp: get_bot_response_def split: prod.splits sum.splits)

lemma fst_query_try:
  "fst (query_try http payload w) =
     (case http API_URL payload of
        Inl e \<Rightarrow> Inl e
      | Inr resp \<Rightarrow> (case raise_for_status resp of Some e \<Rightarrow> Inl e | None \<Rightarrow> json resp))"
  by (auto simp: query_try_def requests_post_def split: sum.splits option.splits)

lemma fst_query:
  "fst (query http payload w) =
     (case fst (query_try http payload w) of
        Inr v \<Rightarrow> Inr v
      | Inl e \<Rightarrow> if isinstance_RequestException e
                 then Inr (PDict [(''error'', PStr ''Failed to get response from API'')])
                 else Inl e)"
  by (auto simp: query_def split: prod.splits sum.splits)

lemma fst_get_bot_response_try:
  "fst (get_bot_response_try http q c w) =
     (case fst (query http (request_payload q c) w) of
        Inl e \<Rightarrow> Inl e
      | Inr resp \<Rightarrow>
          (case py_in ''error'' resp of
             Inl e \<Rightarrow> Inl e
           | Inr True \<Rightarrow> Inr (PStr apology_connecting)
           | Inr False \<Rightarrow> py_get resp ''text'' resp))"
  by (auto simp: get_bot_response_try_def split: prod.splits sum.splits bool.splits)

lemma fst_get_bot_response:
  "fst (get_bot_response http q c w) =
     (case fst (get_bot_response_try http q c w) of
        Inr v \<Rightarrow> v
      | Inl e \<Rightarrow> PStr apology_error)"
  by (auto simp: get_bot_response_def split: prod.splits sum.splits)


subsection \<open>The API adapter: results\<close>

text \<open>
  Claim C3, as amended. When the POST fails in transport (\<^verbatim>\<open>requests.post\<close>
  raises a RequestException) or the reply has a client-error or server-error status
  (400 to 599), \<open>get_bot_response\<close> returns the fixed connection apology and raises
  nothing.
\<close>

theorem transport_failure_apology:
  assumes "(\<exists>e. http API_URL (request_payload q c) = Inl e \<and> isinstance_RequestException e)
         \<or> (\<exists>resp. http API_URL (request_payload q c) = Inr resp
                \<and> 400 \<le> status_code resp \<and> status_code resp < 600)"
  shows "fst (get_bot_response http q c w) =
           PStr ''I apologize, but I'm having trouble connecting. Please try again.''"
proof -
  from assms obtain e where
    "fst (query_try http (request_payload q c) w) = Inl e" "isinstance_RequestException e"
    by (auto simp: fst_query_try raise_for_status_def)
  then have "fst (query http (request_payload q c) w) =
      Inr (PDict [(''error'', PStr ''Failed to get response from API'')])"
    by (simp add: fst_query)
  then show ?thesis
    by (simp add: fst_get_bot_response fst_get_bot_response_try apology_connecting_def)
qed

theorem transport_failure_apology_witness:
  "fst (get_bot_response (endpoint_raising (RequestException ''ConnectionError''))
         ''What sensor do I need?'' ''Setup & Sensor Placement'' fresh) =
     PStr ''I apologize, but I'm having trouble connecting. Please try again.''
   \<and> fst (get_bot_response
         (endpoint_replying 503 (Inr (PDict [(''text'', PStr ''hi'')])))
         ''What sensor do I need?'' ''Setup & Sensor Placement'' fresh) =
     PStr ''I apologize, but I'm having trouble connecting. Please try again.''"
  using transport_failure_apology [of "endpoint_raising (RequestException ''ConnectionError'')"
      "''What sensor do I need?''" "''Setup & Sensor Placement''" fresh]
    transport_failure_apology [of
      "endpoint_replying 503 (Inr (PDict [(''text'', PStr ''hi'')]))"
      "''What sensor do I need?''" "''Setup & Sensor Placement''" fresh]
  by (simp add: endpoint_raising_def endpoint_replying_def raise_for_status_def)

text \<open>
  Claim C3 as first stated covers every status outside 200 to 299. It fails for a
  reply with status 300 and the body \<^verbatim>\<open>{"text": "hi"}\<close>:
  \<^verbatim>\<open>raise_for_status\<close> returns, the body is decoded, and the result is the
  text, not the apology.
\<close>

theorem other_status_counterexample:
  "fst (get_bot_response (endpoint_replying 300 (Inr (PDict [(''text'', PStr ''hi'')])))
         ''What sensor do I need?'' ''Setup & Sensor Placement'' fresh) = PStr ''hi''"
  by (simp add: fst_get_bot_response fst_get_bot_response_try fst_query fst_query_try
      endpoint_replying_def raise_for_status_def)

lemma decoded_dict:
  assumes "http API_URL (request_payload q c) = Inr resp" "raise_for_status resp = None"
    "json resp = Inr v"
  shows "fst (query http (request_payload q c) w) = Inr v"
  using assms by (simp add: fst_query fst_query_try)

text \<open>
  Claim C5. When the POST succeeds and the body decodes to a dict that has a
  \<^verbatim>\<open>"text"\<close> key and no \<^verbatim>\<open>"error"\<close> key, \<open>get_bot_response\<close> returns
  exactly the value under \<^verbatim>\<open>"text"\<close>.
\<close>

theorem text_field_returned:
  assumes "http API_URL (request_payload q c) = Inr resp" "raise_for_status resp = None"
    "json resp = Inr (PDict kvs)" "''error'' \<notin> set (map fst kvs)" "map_of kvs ''text'' = Some v"
  shows "fst (get_bot_response http q c w) = v"
  using assms decoded_dict [of http q c resp "PDict kvs" w]
  by (simp add: fst_get_bot_response fst_get_bot_response_try)

theorem text_field_returned_witness:
  "fst (get_bot_response
         (endpoint_replying 200 (Inr (PDict [(''text'', PStr ''Place the sensor on your upper arm.'')])))
         ''What sensor do I need?'' ''Setup & Sensor Placement'' fresh) =
     PStr ''Place the sensor on your upper arm.''"
  using text_field_returned [of
      "endpoint_replying 200 (Inr (PDict [(''text'', PStr ''Place the sensor on your upper arm.'')]))"
      "''What sensor do I need?''" "''Setup & Sensor Placement''"
      "\<lparr>status_code = 200, json = Inr (PDict [(''text'', PStr ''Place the sensor on your upper arm.'')])\<rparr>"
      "[(''text'', PStr ''Place the sensor on your upper arm.'')]"
      "PStr ''Place the sensor on your upper arm.''" fresh]
  by (simp add: endpoint_replying_def raise_for_status_def)



text \<open>
  Claim C1, as amended. When the POST succeeds and the body decodes to a dict that
  has neither a \<^verbatim>\<open>"text"\<close> key nor an \<^verbatim>\<open>"error"\<close> key,
  \<open>get_bot_response\<close> returns that dict unmodified.
\<close>

theorem raw_dict_returned:
  assumes "http API_URL (request_payload q c) = Inr resp" "raise_for_status resp = None"
    "json resp = Inr (PDict kvs)" "''error'' \<notin> set (map fst kvs)" "''text'' \<notin> set (map fst kvs)"
  shows "fst (get_bot_response http q c w) = PDict kvs"
proof -
  from assms(5) have "map_of kvs ''text'' = None"
    by (simp add: map_of_eq_None_iff)
  with assms decoded_dict [of http q c resp "PDict kvs" w] show ?thesis
    by (simp add: fst_get_bot_response fst_get_bot_response_try)
qed

theorem raw_dict_returned_witness:
  "fst (get_bot_response (endpoint_replying 200 (Inr (PDict [(''answer'', PStr ''ok'')])))
         ''q'' ''Travel & Storage'' fresh) = PDict [(''answer'', PStr ''ok'')]"
  using raw_dict_returned [of "endpoint_replying 200 (Inr (PDict [(''answer'', PStr ''ok'')]))"
      "''q''" "''Travel & Storage''"
      "\<lparr>status_code = 200, json = Inr (PDict [(''answer'', PStr ''ok'')])\<rparr>"
      "[(''answer'', PStr ''ok'')]" fresh]
  by (simp add: endpoint_replying_def raise_for_status_def)

text \<open>
  Claim C1 as first stated covers every decoded payload without a
  \<^verbatim>\<open>"text"\<close> field. It fails for the bare JSON string \<^verbatim>\<open>"ok"\<close>
  (\<^verbatim>\<open>str\<close> has no \<^verbatim>\<open>get\<close>: AttributeError, hence the second apology)
  and for the dict \<^verbatim>\<open>{"error": "quota exceeded"}\<close> (the \<^verbatim>\<open>"error"\<close>
  guard: the connection apology).
\<close>

theorem raw_payload_counterexample:
  "fst (get_bot_response (endpoint_replying 200 (Inr (PStr ''ok''))) ''q'' ''Travel & Storage'' fresh) =
     PStr ''I apologize, but I encountered an error. Please try again in a moment.''
   \<and> fst (get_bot_response (endpoint_replying 200 (Inr (PDict [(''error'', PStr ''quota exceeded'')])))
         ''q'' ''Travel & Storage'' fresh) =
     PStr ''I apologize, but I'm having trouble connecting. Please try again.''"
  by (simp add: fst_get_bot_response fst_get_bot_response_try fst_query fst_query_try
      endpoint_replying_def raise_for_status_def apology_error_def apology_connecting_def)

text \<open>
  Claim C4, as amended. \<open>get_bot_response\<close> returns a value on every outcome. When
  one of the library calls of \<open>query\<close> raises, the result is decided by the class of
  the exception: the connection apology for a RequestException, whichever call raised
  it, and the second apology for any other exception. Every exception that leaves the
  \<^verbatim>\<open>try\<close> block of \<open>get_bot_response\<close>, from \<open>query\<close> or from the handling
  of the decoded payload, gives the second apology.
\<close>

theorem failures_mapped:
  "(fst (query_try http (request_payload q c) w) = Inl e \<longrightarrow>
      fst (get_bot_response http q c w) =
        (if isinstance_RequestException e
         then PStr ''I apologize, but I'm having trouble connecting. Please try again.''
         else PStr ''I apologize, but I encountered an error. Please try again in a moment.''))
   \<and> (fst (get_bot_response_try http q c w) = Inl e' \<longrightarrow>
      fst (get_bot_response http q c w) =
        PStr ''I apologize, but I encountered an error. Please try again in a moment.'')"
  by (simp add: fst_get_bot_response fst_get_bot_response_try fst_query
      apology_connecting_def apology_error_def)

theorem failures_mapped_witness:
  "fst (get_bot_response (endpoint_replying 200 (Inl (OtherException ''ValueError'')))
         ''q'' ''Travel & Storage'' fresh) =
     PStr ''I apologize, but I encountered an error. Please try again in a moment.''
   \<and> fst (get_bot_response (endpoint_raising (RequestException ''Timeout''))
         ''q'' ''Travel & Storage'' fresh) =
     PStr ''I apologize, but I'm having trouble connecting. Please try again.''
   \<and> fst (get_bot_response (endpoint_replying 200 (Inr (PInt 3)))
         ''q'' ''Travel & Storage'' fresh) =
     PStr ''I apologize, but I encountered an error. Please try again in a moment.''"
  using failures_mapped [of "endpoint_replying 200 (Inl (OtherException ''ValueError''))"
      "''q''" "''Travel & Storage''" fresh "OtherException ''ValueError''" "OtherException ''ValueError''"]
    failures_mapped [of "endpoint_raising (RequestException ''Timeout'')"
      "''q''" "''Travel & Storage''" fresh "RequestException ''Timeout''" TypeError]
    failures_mapped [of "endpoint_replying 200 (Inr (PInt 3))"
      "''q''" "''Travel & Storage''" fresh TypeError TypeError]
  by (simp add: fst_query_try fst_query fst_get_bot_response_try endpoint_replying_def raise_for_status_def endpoint_raising_def)

text \<open>
  Claim C4 as first stated maps every failure other than a network error or a bad
  status to the second apology. It fails when the POST succeeds with a good status and
  the body is not JSON: \<^verbatim>\<open>response.json()\<close> raises the library's
  JSONDecodeError, a RequestException, which \<open>query\<close> catches, and the result is the
  connection apology.
\<close>

theorem decode_failure_counterexample:
  "fst (get_bot_response (endpoint_replying 200 (Inl (RequestException ''JSONDecodeError'')))
         ''q'' ''Travel & Storage'' fresh) =
     PStr ''I apologize, but I'm having trouble connecting. Please try again.''
   \<and> fst (get_bot_response (endpoint_replying 200 (Inl (RequestException ''JSONDecodeError'')))
         ''q'' ''Travel & Storage'' fresh) \<noteq>
     PStr ''I apologize, but I encountered an error. Please try again in a moment.''"
  by (simp add: fst_get_bot_response fst_get_bot_response_try fst_query fst_query_try
      endpoint_replying_def raise_for_status_def apology_connecting_def)

subsection \<open>The conversation log\<close>

text \<open>
  Claim C9. Appending a message to an existing log makes the log one entry longer,
  keeps every prior entry unchanged and in place, and changes nothing else of the
  conversation state.
\<close>

theorem append_message_appends:
  assumes "messages w = Some ms"
  shows "fst (append_message r c w) = Inr ()
    \<and> messages (snd (append_message r c w)) = Some (ms @ [\<lparr>role = r, content = c\<rparr>])
    \<and> length (ms @ [\<lparr>role = r, content = c\<rparr>]) = length ms + 1
    \<and> take (length ms) (ms @ [\<lparr>role = r, content = c\<rparr>]) = ms
    \<and> category (snd (append_message r c w)) = category w"
  using assms by (simp add: append_message_def)

theorem append_message_appends_witness:
  "messages (snd (append_message ''user'' (PStr ''hello'') (initialize_session_state fresh))) =
     Some [greeting, \<lparr>role = ''user'', content = PStr ''hello''\<rparr>]
   \<and> category (snd (append_message ''user'' (PStr ''hello'') (initialize_session_state fresh))) =
     Some ''General''"
  using append_message_appends [of "initialize_session_state fresh" "[greeting]" "''user''" "PStr ''hello''"]
  by (simp add: initialize_session_state_def fresh_def)

lemma append_message_Some:
  "messages w = Some ms \<Longrightarrow>
   append_message r c w =
     (Inr (), w\<lparr>messages := Some (ms @ [\<lparr>role = r, content = c\<rparr>]),
                 trace := trace w @ [Appended \<lparr>role = r, content = c\<rparr>]\<rparr>)"
  by (simp add: append_message_def)

text \<open>
  Claim C6. Submitting a non-empty question \<open>q\<close> under the selected category \<open>c\<close>
  appends the user message, then sends the POST whose body is exactly
  \<^verbatim>\<open>{"question": q, "category": c}\<close>, then appends the assistant message that
  holds the reply \<open>get_bot_response\<close> returned: three events in that order and
  nothing else, so the log grows by one user and one assistant message.
\<close>

theorem submission_order:
  assumes "messages w = Some ms" "category w = Some c" "q \<noteq> []"
  shows "\<exists>reply.
     reply = fst (get_bot_response http q c (snd (append_message ''user'' (PStr q) w)))
   \<and> render_chat_interface http (Some q) w =
       (Inr (),
        w\<lparr>messages := Some (ms @ [\<lparr>role = ''user'', content = PStr q\<rparr>,
                                   \<lparr>role = ''assistant'', content = reply\<rparr>]),
          trace := trace w @
            [Appended \<lparr>role = ''user'', content = PStr q\<rparr>,
             Posted API_URL (PDict [(''question'', PStr q), (''category'', PStr c)]),
             Appended \<lparr>role = ''assistant'', content = reply\<rparr>]\<rparr>)"
proof -
  let ?w1 = "w\<lparr>messages := Some (ms @ [\<lparr>role = ''user'', content = PStr q\<rparr>]),
                trace := trace w @ [Appended \<lparr>role = ''user'', content = PStr q\<rparr>]\<rparr>"
  have a1: "append_message ''user'' (PStr q) w = (Inr (), ?w1)"
    using assms(1) by (rule append_message_Some)
  obtain reply w2 where g: "get_bot_response http q c ?w1 = (reply, w2)"
    by (cases "get_bot_response http q c ?w1") auto
  have w2: "w2 = ?w1\<lparr>trace := trace ?w1 @ [Posted API_URL (request_payload q c)]\<rparr>"
    using snd_get_bot_response [of http q c ?w1] g by simp
  have a2: "append_message ''assistant'' reply w2 =
      (Inr (), w2\<lparr>messages := Some ((ms @ [\<lparr>role = ''user'', content = PStr q\<rparr>]) @ [\<lparr>role = ''assistant'', content = reply\<rparr>]),
                 trace := trace w2 @ [Appended \<lparr>role = ''assistant'', content = reply\<rparr>]\<rparr>)"
    by (rule append_message_Some) (simp add: w2)
  have "render_chat_interface http (Some q) w = append_message ''assistant'' reply w2"
    using assms a1 g by (simp add: render_chat_interface_def)
  with a2 have "render_chat_interface http (Some q) w =
       (Inr (),
        w\<lparr>messages := Some (ms @ [\<lparr>role = ''user'', content = PStr q\<rparr>,
                                   \<lparr>role = ''assistant'', content = reply\<rparr>]),
          trace := trace w @
            [Appended \<lparr>role = ''user'', content = PStr q\<rparr>,
             Posted API_URL (PDict [(''question'', PStr q), (''category'', PStr c)]),
             Appended \<lparr>role = ''assistant'', content = reply\<rparr>]\<rparr>)"
    by (simp add: w2 request_payload_def)
  moreover have "reply = fst (get_bot_response http q c (snd (append_message ''user'' (PStr q) w)))"
    using a1 g by simp
  ultimately show ?thesis by blast
qed


theorem submission_order_witness:
  "render_chat_interface
     (endpoint_replying 200 (Inr (PDict [(''text'', PStr ''Hold the button.'')])))
     (Some ''How do I calibrate?'')
     \<lparr>messages = Some [greeting], category = Some ''Calibration & Device Connection'', trace = []\<rparr> =
   (Inr (),
    \<lparr>messages = Some [greeting,
        \<lparr>role = ''user'', content = PStr ''How do I calibrate?''\<rparr>,
        \<lparr>role = ''assistant'', content = PStr ''Hold the button.''\<rparr>],
     category = Some ''Calibration & Device Connection'',
     trace = [Appended \<lparr>role = ''user'', content = PStr ''How do I calibrate?''\<rparr>,
        Posted API_URL (PDict [(''question'', PStr ''How do I calibrate?''),
                               (''category'', PStr ''Calibration & Device Connection'')]),
        Appended \<lparr>role = ''assistant'', content = PStr ''Hold the button.''\<rparr>]\<rparr>)"
  using submission_order [of
      "\<lparr>messages = Some [greeting], category = Some ''Calibration & Device Connection'', trace = []\<rparr>"
      "[greeting]" "''Calibration & Device Connection''" "''How do I calibrate?''"
      "endpoint_replying 200 (Inr (PDict [(''text'', PStr ''Hold the button.'')]))"]
  by (simp add: fst_get_bot_response fst_get_bot_response_try fst_query fst_query_try
      endpoint_replying_def raise_for_status_def request_payload_def)

subsection \<open>The selected category\<close>

lemma get_bot_response_world:
  "get_bot_response http q c w = (reply, w') \<Longrightarrow>
   w' = w\<lparr>trace := trace w @ [Posted API_URL (request_payload q c)]\<rparr>"
  using snd_get_bot_response [of http q c w] by simp

lemma category_render_chat_interface:
  "category (snd (render_chat_interface http chat_input w)) = category w"
  by (auto simp: render_chat_interface_def append_message_def
      split: option.splits prod.splits sum.splits dest!: get_bot_response_world)

lemma category_script:
  "category (snd (script http pick chat_input w)) = Some (render_sidebar pick)"
  by (simp add: script_def run_def category_render_chat_interface)

lemma session_snoc:
  "session (xs @ [(http, pick, chat_input)]) w = snd (script http pick chat_input (session xs w))"
  by (induction xs arbitrary: w) auto

lemma category_initialized:
  "category w = Some c \<Longrightarrow> category (initialize_session_state w) = Some c"
  by (simp add: initialize_session_state_def)

lemma render_sidebar_label:
  "pick < length get_category_descriptions \<Longrightarrow>
   render_sidebar pick \<in> set (map fst get_category_descriptions)"
  by (simp add: render_sidebar_def)

lemma labels_nonempty:
  "l \<in> set (map fst get_category_descriptions) \<Longrightarrow> l \<noteq> []"
  by (auto simp: get_category_descriptions_def)

text \<open>
  Claim C2, as amended. The selected category is never empty. After initialization of
  a session that has not run the page yet it is "General"; once the page has run, it
  is the catalog label picked in the sidebar, after the run and after every later
  initialization.
\<close>

theorem category_after_interactions:
  assumes "\<forall>x \<in> set xs. fst (snd x) < length get_category_descriptions"
  shows "\<exists>c. category (initialize_session_state (session xs fresh)) = Some c \<and> c \<noteq> []
     \<and> (if xs = [] then c = ''General''
        else c \<in> set (map fst get_category_descriptions)
           \<and> category (session xs fresh) = Some c)"
proof (cases xs rule: rev_cases)
  case Nil
  then show ?thesis
    by (simp add: initialize_session_state_def fresh_def)
next
  case (snoc ys x)
  obtain http pick chat_input where x: "x = (http, pick, chat_input)"
    by (cases x) auto
  from assms snoc x have "pick < length get_category_descriptions" by simp
  then have l: "render_sidebar pick \<in> set (map fst get_category_descriptions)"
    by (rule render_sidebar_label)
  have c: "category (session xs fresh) = Some (render_sidebar pick)"
    by (simp add: snoc x session_snoc category_script)
  from c have "category (initialize_session_state (session xs fresh)) = Some (render_sidebar pick)"
    by (rule category_initialized)
  with c l labels_nonempty [OF l] snoc show ?thesis by simp
qed

theorem category_after_interactions_witness:
  "category (session [(endpoint_raising (RequestException ''Timeout''), 3, Some ''hello'')] fresh) =
     Some ''Daily Usage & Data Management''
   \<and> category (initialize_session_state
        (session [(endpoint_raising (RequestException ''Timeout''), 3, Some ''hello'')] fresh)) =
     Some ''Daily Usage & Data Management''"
  using category_after_interactions [of "[(endpoint_raising (RequestException ''Timeout''), 3, Some ''hello'')]"]
  by (simp add: get_category_descriptions_def script_def run_def render_sidebar_def
      category_render_chat_interface initialize_session_state_def)

text \<open>
  Claim C2 as first stated requires a catalog label immediately after initialization.
  It fails there: the category is "General", which is not a key of the catalog.
\<close>

theorem initial_category_counterexample:
  "category (initialize_session_state fresh) = Some ''General''
   \<and> ''General'' \<notin> set (map fst get_category_descriptions)"
  by (simp add: initialize_session_state_def fresh_def get_category_descriptions_def)

end
